theory Spec2Isabelle
  imports Complex_Main
begin

section \<open>The MARWIL torch policy: loss and statistics\<close>

text \<open>
  A shallow embedding of \<^verbatim>\<open>rllib/algorithms/marwil/marwil_torch_policy.py\<close>.

  Numbers are real numbers: a float32 tensor entry and a Python float are both a
  \<open>real\<close>, so rounding, overflow to infinity and nan are outside the model, except for
  the weights \<open>exp_advs\<close>, whose overflow and underflow in float32 are modelled apart
  (\<open>exp_advs_float32\<close>). Two places
  where torch yields nan and HOL yields a number are kept out of the theorems by an
  explicit hypothesis: the mean of an empty tensor (HOL: \<open>0 / 0 = 0\<close>) and the power
  \<open>0.5\<close> of a negative base (HOL: \<open>sqrt\<close> of a negative number is negative).
  \<open>detach\<close> and \<open>requires_grad\<close> concern the gradient graph and have no counterpart
  here.
\<close>

subsection \<open>Tensors\<close>

text \<open>
  A value in the loss is either a Python float (\<open>Scalar\<close>, as in \<^verbatim>\<open>exp_advs = 1.0\<close>) or
  a one-dimensional tensor of shape \<open>[B]\<close> (\<open>Vec\<close>).
\<close>

datatype tensor = Scalar real | Vec "real list"

datatype error = KeyError | AttributeError | ShapeMismatch

text \<open>
  A binary operator on two values, with torch's broadcasting of shapes \<open>[B]\<close>, \<open>[1]\<close> and
  a scalar; any other pair of shapes raises.
\<close>

fun broadcast :: "(real \<Rightarrow> real \<Rightarrow> real) \<Rightarrow> tensor \<Rightarrow> tensor \<Rightarrow> error + tensor" where
  "broadcast f (Scalar a) (Scalar b) = Inr (Scalar (f a b))"
| "broadcast f (Scalar a) (Vec ys) = Inr (Vec (map (f a) ys))"
| "broadcast f (Vec xs) (Scalar b) = Inr (Vec (map (\<lambda>x. f x b) xs))"
| "broadcast f (Vec xs) (Vec ys) =
     (if length xs = length ys then Inr (Vec (map2 f xs ys))
      else if length xs = 1 then Inr (Vec (map (f (hd xs)) ys))
      else if length ys = 1 then Inr (Vec (map (\<lambda>x. f x (hd ys)) xs))
      else Inl ShapeMismatch)"

text \<open>An elementwise function (\<^verbatim>\<open>torch.exp\<close>, \<^verbatim>\<open>torch.pow(_, 2.0)\<close>, a float times a tensor).\<close>

fun tmap :: "(real \<Rightarrow> real) \<Rightarrow> tensor \<Rightarrow> tensor" where
  "tmap f (Scalar a) = Scalar (f a)"
| "tmap f (Vec xs) = Vec (map f xs)"

definition mean_list :: "real list \<Rightarrow> real" where
  "mean_list xs = sum_list xs / real (length xs)"

text \<open>\<^verbatim>\<open>torch.mean\<close> over all entries.\<close>

fun mean :: "tensor \<Rightarrow> real" where
  "mean (Scalar a) = a"
| "mean (Vec xs) = mean_list xs"

fun entries :: "tensor \<Rightarrow> real list" where
  "entries (Scalar a) = [a]"
| "entries (Vec xs) = xs"

subsection \<open>Configuration, policy state and inputs\<close>

text \<open>The configuration keys the policy reads, after the merge with the defaults.\<close>

record marwil_config =
  beta :: real
  moving_average_sqd_adv_norm_start :: real
  moving_average_sqd_adv_norm_update_rate :: real
  vf_coeff :: real
  bc_logstd_coeff :: real

text \<open>
  The attributes of the policy object that \<^verbatim>\<open>__init__\<close>, \<^verbatim>\<open>loss\<close> and \<^verbatim>\<open>stats_fn\<close> set
  and read. \<open>None\<close> is an attribute that has not been set.
\<close>

record policy =
  config :: marwil_config
  moving_average_sqd_adv_norm :: "real option"
  explained_variance_attr :: "real option"
  v_loss :: "real option"
  p_loss :: "real option"
  total_loss :: "real option"

text \<open>
  What one call of \<^verbatim>\<open>loss\<close> obtains from its collaborators:
  \<^item> \<open>logprobs\<close>: \<^verbatim>\<open>action_dist.logp(actions)\<close>;
  \<^item> \<open>advantages\<close>: \<^verbatim>\<open>train_batch[Postprocessing.ADVANTAGES]\<close>, \<open>None\<close> when the batch
    has no such key;
  \<^item> \<open>state_values\<close>: \<^verbatim>\<open>model.value_function()\<close>;
  \<^item> \<open>log_std\<close>: \<^verbatim>\<open>action_dist.log_std\<close>, of shape \<open>[B, A]\<close>, \<open>None\<close> when the
    distribution has no such attribute.
\<close>

record train_inputs =
  logprobs :: "real list"
  advantages :: "real list option"
  state_values :: "real list"
  log_std :: "real list list option"

subsection \<open>Construction\<close>

text \<open>
  \<^verbatim>\<open>__init__\<close>, lines 39 to 46. The call of \<^verbatim>\<open>_initialize_loss_from_dummy_batch\<close> that
  follows is one call of \<open>loss\<close> on a batch made by the framework.
\<close>

definition init :: "marwil_config \<Rightarrow> policy" where
  "init cfg =
     \<lparr> config = cfg,
       moving_average_sqd_adv_norm =
         (if beta cfg \<noteq> 0 then Some (moving_average_sqd_adv_norm_start cfg) else None),
       explained_variance_attr = None,
       v_loss = None,
       p_loss = None,
       total_loss = None \<rparr>"

subsection \<open>The loss\<close>

definition variance :: "real list \<Rightarrow> real" where
  "variance xs = mean_list (map (\<lambda>x. (x - mean_list xs)\<^sup>2) xs)"

text \<open>
  Modelled from the spec: \<^verbatim>\<open>ray.rllib.utils.torch_utils.explained_variance\<close> is imported
  by the policy and is not part of the source at hand. The spec gives it as
  \<open>1 - Var(target - prediction) / Var(target)\<close>, a diagnostic that the loss does not use.
\<close>

definition explained_variance :: "real list \<Rightarrow> real list \<Rightarrow> error + real" where
  "explained_variance y pred =
     (case broadcast (-) (Vec y) (Vec pred) of
        Inl e \<Rightarrow> Inl e
      | Inr d \<Rightarrow> Inr (1 - variance (entries d) / variance y))"

text \<open>
  Lines 81 to 84: the exponentially weighted advantages, for the advantages \<open>adv\<close> and
  the moving average \<open>m\<close>. The moving average is a tensor of shape \<open>[1]\<close>, so the division
  broadcasts over \<open>adv\<close>. The literal \<^verbatim>\<open>1e-8\<close> is \<open>1 / 10 ^ 8\<close>.
\<close>

definition exp_advs_of :: "real \<Rightarrow> tensor \<Rightarrow> real \<Rightarrow> tensor" where
  "exp_advs_of b adv m =
     tmap exp (tmap (\<lambda>x. b * x) (tmap (\<lambda>a. a / (1 / 10 ^ 8 + sqrt m)) adv))"

text \<open>
  Lines 65 to 91: the branch on \<open>beta\<close>. It returns \<open>exp_advs\<close> and the policy with the
  attributes it has set. An exception leaves the attributes set before it in place.
\<close>

definition advantage_estimation :: "policy \<Rightarrow> train_inputs \<Rightarrow> (error + tensor) \<times> policy" where
  "advantage_estimation s b =
     (if beta (config s) \<noteq> 0 then
        (case advantages b of
           None \<Rightarrow> (Inl KeyError, s)
         | Some cumulative_rewards \<Rightarrow>
             (case broadcast (-) (Vec cumulative_rewards) (Vec (state_values b)) of
                Inl e \<Rightarrow> (Inl e, s)
              | Inr adv \<Rightarrow>
                  (let adv_squared_mean = mean (tmap (\<lambda>x. x\<^sup>2) adv) in
                   case explained_variance cumulative_rewards (state_values b) of
                     Inl e \<Rightarrow> (Inl e, s)
                   | Inr explained_var \<Rightarrow>
                       (let s1 = s\<lparr>explained_variance_attr := Some explained_var\<rparr>;
                            rate = moving_average_sqd_adv_norm_update_rate (config s1)
                        in case moving_average_sqd_adv_norm s1 of
                             None \<Rightarrow> (Inl AttributeError, s1)
                           | Some m \<Rightarrow>
                               (let m' = m + rate * (adv_squared_mean - m);
                                    s2 = s1\<lparr>moving_average_sqd_adv_norm := Some m'\<rparr>;
                                    exp_advs = exp_advs_of (beta (config s2)) adv m'
                                in (Inr exp_advs, s2\<lparr>v_loss := Some (0.5 * adv_squared_mean)\<rparr>))))))
      else (Inr (Scalar 1), s\<lparr>v_loss := Some 0\<rparr>))"

text \<open>Lines 98 to 102: the log-std term.\<close>

definition logstds_of :: "real \<Rightarrow> train_inputs \<Rightarrow> error + tensor" where
  "logstds_of logstd_coeff b =
     (if logstd_coeff > 0 then
        (case log_std b of
           None \<Rightarrow> Inl AttributeError
         | Some rows \<Rightarrow> Inr (Vec (map mean_list rows)))
      else Inr (Scalar 0))"

text \<open>
  \<^verbatim>\<open>loss\<close>: the result is the returned total loss or the exception raised, paired with
  the policy after the call.
\<close>

definition loss :: "policy \<Rightarrow> train_inputs \<Rightarrow> (error + real) \<times> policy" where
  "loss s b =
     (case advantage_estimation s b of
        (Inl e, s1) \<Rightarrow> (Inl e, s1)
      | (Inr exp_advs, s1) \<Rightarrow>
          (let logstd_coeff = bc_logstd_coeff (config s1) in
           case logstds_of logstd_coeff b of
             Inl e \<Rightarrow> (Inl e, s1)
           | Inr logstds \<Rightarrow>
               (case broadcast (+) (Vec (logprobs b)) (tmap (\<lambda>x. logstd_coeff * x) logstds) of
                  Inl e \<Rightarrow> (Inl e, s1)
                | Inr inner \<Rightarrow>
                    (case broadcast (*) exp_advs inner of
                       Inl e \<Rightarrow> (Inl e, s1)
                     | Inr weighted \<Rightarrow>
                         (let s2 = s1\<lparr>p_loss := Some (- mean weighted)\<rparr> in
                          case (p_loss s2, v_loss s2) of
                            (Some p, Some v) \<Rightarrow>
                              (let t = p + vf_coeff (config s2) * v
                               in (Inr t, s2\<lparr>total_loss := Some t\<rparr>))
                          | _ \<Rightarrow> (Inl AttributeError, s2))))))"

subsection \<open>Statistics\<close>

text \<open>
  \<^verbatim>\<open>stats_fn\<close>: the dictionary of statistics, or the exception of reading an attribute
  that no call of \<open>loss\<close> has set. \<^verbatim>\<open>convert_to_numpy\<close> keeps keys and numbers.
\<close>

definition stats_fn :: "policy \<Rightarrow> error + (string \<rightharpoonup> real)" where
  "stats_fn s =
     (case (p_loss s, total_loss s) of
        (Some p, Some t) \<Rightarrow>
          (let stats = [''policy_loss'' \<mapsto> p, ''total_loss'' \<mapsto> t] in
           if beta (config s) \<noteq> 0 then
             (case (moving_average_sqd_adv_norm s, explained_variance_attr s, v_loss s) of
                (Some m, Some ev, Some v) \<Rightarrow>
                  Inr (stats(''moving_average_sqd_adv_norm'' \<mapsto> m,
                             ''vf_explained_var'' \<mapsto> ev,
                             ''vf_loss'' \<mapsto> v))
              | _ \<Rightarrow> Inl AttributeError)
           else Inr stats)
      | _ \<Rightarrow> Inl AttributeError)"

subsection \<open>Concrete configurations and inputs\<close>

text \<open>
  The advantage-weighted scenario of the specification: two transitions, \<open>beta = 1\<close>,
  a moving average that starts at \<open>1\<close> and an update rate of \<open>0.1\<close>.
\<close>

definition scenario_config :: marwil_config where
  "scenario_config =
     \<lparr> beta = 1, moving_average_sqd_adv_norm_start = 1,
       moving_average_sqd_adv_norm_update_rate = 1 / 10, vf_coeff = 1, bc_logstd_coeff = 0 \<rparr>"

definition scenario_inputs :: train_inputs where
  "scenario_inputs =
     \<lparr> logprobs = [-1, -2], advantages = Some [2, 4], state_values = [1, 1], log_std = None \<rparr>"

text \<open>The behavioural-cloning scenario of the specification: four transitions, \<open>beta = 0\<close>.\<close>

definition cloning_config :: marwil_config where
  "cloning_config =
     \<lparr> beta = 0, moving_average_sqd_adv_norm_start = 100,
       moving_average_sqd_adv_norm_update_rate = 1 / 10 ^ 8, vf_coeff = 1, bc_logstd_coeff = 0 \<rparr>"

definition cloning_inputs :: train_inputs where
  "cloning_inputs =
     \<lparr> logprobs = [-1, -2, -1 / 2, -3], advantages = None, state_values = [], log_std = None \<rparr>"


text \<open>
  A scenario in which the mean of the squared advantages equals the moving average, so
  that the update leaves the moving average at \<open>1\<close>; the distribution has a
  log-standard-deviation and \<open>bc_logstd_coeff\<close> is positive.
\<close>

definition steady_config :: marwil_config where
  "steady_config =
     \<lparr> beta = 1, moving_average_sqd_adv_norm_start = 1,
       moving_average_sqd_adv_norm_update_rate = 1 / 10, vf_coeff = 1, bc_logstd_coeff = 1 / 2 \<rparr>"

definition steady_inputs :: train_inputs where
  "steady_inputs =
     \<lparr> logprobs = [-1, -2], advantages = Some [2, 0], state_values = [1, 1],
       log_std = Some [[2, 4], [0, 2]] \<rparr>"




subsection \<open>The weight as the specification writes it\<close>


subsection \<open>The weights in float32\<close>

text \<open>
  \<^verbatim>\<open>torch.exp\<close> works on a float32 tensor. A result of at least \<open>2 ^ 128\<close> lies beyond
  every finite float32 number and is \<open>inf\<close>; a result of at most \<open>2 ^ -150\<close>, half the
  smallest positive float32 number, is \<open>0\<close>. The rounding of the results in between to
  the nearest float32 number is not modelled. \<open>exp_advs_float32\<close> is the list of the
  weights of lines 81 to 84 with this overflow and underflow.
\<close>

datatype float32 = Finite real | PosInf

definition to_float32 :: "real \<Rightarrow> float32" where
  "to_float32 x =
     (if 2 ^ 128 \<le> x then PosInf else if x \<le> 1 / 2 ^ 150 then Finite 0 else Finite x)"

definition exp_advs_float32 :: "real \<Rightarrow> tensor \<Rightarrow> real \<Rightarrow> float32 list" where
  "exp_advs_float32 b adv m = map to_float32 (entries (exp_advs_of b adv m))"

fun float32_less :: "float32 \<Rightarrow> float32 \<Rightarrow> bool" where
  "float32_less (Finite x) (Finite y) = (x < y)"
| "float32_less (Finite x) PosInf = True"
| "float32_less PosInf y = False"

definition float32_le :: "float32 \<Rightarrow> float32 \<Rightarrow> bool" where
  "float32_le x y = (x = y \<or> float32_less x y)"

section \<open>Properties\<close>

subsection \<open>The two branches of the advantage estimation\<close>

lemma advantage_estimation_weighted:
  assumes "beta (config s) \<noteq> 0"
    and "advantages b = Some cr"
    and "broadcast (-) (Vec cr) (Vec (state_values b)) = Inr adv"
    and "moving_average_sqd_adv_norm s = Some old"
  shows "advantage_estimation s b =
     (Inr (exp_advs_of (beta (config s)) adv
        (old + moving_average_sqd_adv_norm_update_rate (config s) * (mean (tmap (\<lambda>x. x\<^sup>2) adv) - old))),
      s\<lparr>explained_variance_attr := Some (1 - variance (entries adv) / variance cr),
        moving_average_sqd_adv_norm :=
          Some (old + moving_average_sqd_adv_norm_update_rate (config s) * (mean (tmap (\<lambda>x. x\<^sup>2) adv) - old)),
        v_loss := Some (0.5 * mean (tmap (\<lambda>x. x\<^sup>2) adv))\<rparr>)"
  using assms by (simp add: advantage_estimation_def explained_variance_def Let_def)

lemma advantage_estimation_cloning:
  "beta (config s) = 0 \<Longrightarrow> advantage_estimation s b = (Inr (Scalar 1), s\<lparr>v_loss := Some 0\<rparr>)"
  by (simp add: advantage_estimation_def)

lemma loss_keeps_moving_average:
  "moving_average_sqd_adv_norm (snd (loss s b))
     = moving_average_sqd_adv_norm (snd (advantage_estimation s b))"
  by (auto simp: loss_def Let_def split: prod.splits sum.splits option.splits)

subsection \<open>The moving average is updated, then used\<close>

text \<open>
  C1. With \<open>beta \<noteq> 0\<close>, the advantages present and \<open>adv\<close> their difference to the value
  estimates, the moving average after the call is
  \<open>new = old + rate * (mean (adv\<^sup>2) - old)\<close>, also when the call raises later on, and,
  for a non-negative \<open>new\<close>, the weight of every transition with advantage \<open>a\<close> in that
  call is \<open>exp (beta * (a / (1e-8 + sqrt new)))\<close>, computed from the new value.
\<close>

theorem moving_average_update_then_use:
  assumes "beta (config s) \<noteq> 0"
    and "advantages b = Some cr"
    and "broadcast (-) (Vec cr) (Vec (state_values b)) = Inr adv"
    and "entries adv \<noteq> []"
    and "moving_average_sqd_adv_norm s = Some old"
    and "new = old + moving_average_sqd_adv_norm_update_rate (config s)
                      * (mean (tmap (\<lambda>x. x\<^sup>2) adv) - old)"
  shows "moving_average_sqd_adv_norm (snd (loss s b)) = Some new
       \<and> (0 \<le> new \<longrightarrow>
            fst (advantage_estimation s b)
              = Inr (Vec (map (\<lambda>a. exp (beta (config s) * (a / (1 / 10 ^ 8 + sqrt new))))
                              (entries adv))))"
proof -
  obtain xs where xs: "adv = Vec xs"
    using assms(3) by (cases adv) (auto split: if_splits)
  show ?thesis
    using advantage_estimation_weighted [OF assms(1,2,3,5)] assms(6) xs
    by (simp add: loss_keeps_moving_average exp_advs_of_def del: broadcast.simps)
qed

theorem moving_average_update_then_use_witness:
  "moving_average_sqd_adv_norm (snd (loss (init scenario_config) scenario_inputs)) = Some (7 / 5)
   \<and> fst (advantage_estimation (init scenario_config) scenario_inputs)
       = Inr (Vec [exp (1 * (1 / (1 / 10 ^ 8 + sqrt (7 / 5)))),
                   exp (1 * (3 / (1 / 10 ^ 8 + sqrt (7 / 5))))])
   \<and> exp (1 * (1 / (1 / 10 ^ 8 + sqrt (7 / 5)))) \<noteq> exp (1 * (1 / (1 / 10 ^ 8 + sqrt (1::real))))"
proof -
  have root: "sqrt (7 / 5) \<noteq> (1::real)"
    by simp
  have "1 / (1 / 10 ^ 8 + sqrt (7 / 5)) \<noteq> 1 / (1 / 10 ^ 8 + sqrt (1::real))"
  proof
    assume "1 / (1 / 10 ^ 8 + sqrt (7 / 5)) = 1 / (1 / 10 ^ 8 + sqrt (1::real))"
    then have "inverse (1 / 10 ^ 8 + sqrt (7 / 5)) = inverse (1 / 10 ^ 8 + sqrt (1::real))"
      by (simp only: inverse_eq_divide)
    then have "1 / 10 ^ 8 + sqrt (7 / 5) = 1 / 10 ^ 8 + sqrt (1::real)"
      by (simp only: inverse_eq_iff_eq)
    then show False
      using root by simp
  qed
  then have weights: "exp (1 * (1 / (1 / 10 ^ 8 + sqrt (7 / 5))))
                    \<noteq> exp (1 * (1 / (1 / 10 ^ 8 + sqrt (1::real))))"
    by (simp only: mult_1 exp_inj_iff simp_thms)
  show ?thesis
    using moving_average_update_then_use [of "init scenario_config" scenario_inputs "[2, 4]" "Vec [1, 3]" 1 "7 / 5"] weights
    by (simp add: scenario_config_def scenario_inputs_def init_def mean_list_def)
qed

subsection \<open>Behavioural cloning\<close>

lemma loss_cloning_v_loss:
  "beta (config s) = 0 \<Longrightarrow> v_loss (snd (loss s b)) = Some 0"
  by (auto simp: loss_def advantage_estimation_cloning Let_def split: sum.splits)

lemma loss_cloning_moving_average:
  "beta (config s) = 0 \<Longrightarrow>
     loss (s\<lparr>moving_average_sqd_adv_norm := x\<rparr>) b
       = (fst (loss s b), (snd (loss s b))\<lparr>moving_average_sqd_adv_norm := x\<rparr>)"
  by (auto simp: loss_def advantage_estimation_cloning Let_def split: sum.splits)

lemma loss_cloning_total:
  "beta (config s) = 0 \<Longrightarrow> fst (loss s b) = Inr t \<Longrightarrow>
     p_loss (snd (loss s b)) = Some t \<and> total_loss (snd (loss s b)) = Some t"
  by (auto simp: loss_def advantage_estimation_cloning Let_def split: sum.splits)

lemma cloning_loss:
  "fst (loss (init cloning_config) cloning_inputs) = Inr (13 / 8)"
  by (simp add: loss_def advantage_estimation_def logstds_of_def init_def cloning_config_def
        cloning_inputs_def mean_list_def Let_def)

text \<open>
  C3. With \<open>beta = 0\<close>, construction leaves the moving average unset, a call of the loss
  neither writes it nor reads it (its result is the same for any content of the
  attribute), the value loss is \<open>0\<close>, and a call that returns leaves the returned total
  loss in both \<open>p_loss\<close> and \<open>total_loss\<close>, whatever \<open>vf_coeff\<close> is.
\<close>

theorem cloning_no_value_loss_no_moving_average:
  assumes "beta (config s) = 0"
  shows "moving_average_sqd_adv_norm (init (config s)) = None
       \<and> moving_average_sqd_adv_norm (snd (loss s b)) = moving_average_sqd_adv_norm s
       \<and> loss (s\<lparr>moving_average_sqd_adv_norm := x\<rparr>) b
           = (fst (loss s b), (snd (loss s b))\<lparr>moving_average_sqd_adv_norm := x\<rparr>)
       \<and> v_loss (snd (loss s b)) = Some 0
       \<and> (\<forall>t. fst (loss s b) = Inr t \<longrightarrow>
             p_loss (snd (loss s b)) = Some t \<and> total_loss (snd (loss s b)) = Some t)"
proof -
  have "moving_average_sqd_adv_norm (init (config s)) = None"
    using assms by (simp add: init_def)
  moreover have "moving_average_sqd_adv_norm (snd (loss s b)) = moving_average_sqd_adv_norm s"
    using assms
    by (auto simp: loss_def advantage_estimation_cloning Let_def split: sum.splits)
  ultimately show ?thesis
    using assms loss_cloning_moving_average loss_cloning_v_loss loss_cloning_total by blast
qed

theorem cloning_no_value_loss_no_moving_average_witness:
  "beta (config (init cloning_config)) = 0
   \<and> moving_average_sqd_adv_norm (init cloning_config) = None
   \<and> moving_average_sqd_adv_norm (snd (loss (init cloning_config) cloning_inputs)) = None
   \<and> v_loss (snd (loss (init cloning_config) cloning_inputs)) = Some 0
   \<and> fst (loss (init cloning_config) cloning_inputs) = Inr (13 / 8)
   \<and> p_loss (snd (loss (init cloning_config) cloning_inputs)) = Some (13 / 8)
   \<and> total_loss (snd (loss (init cloning_config) cloning_inputs)) = Some (13 / 8)"
proof -
  have b: "beta (config (init cloning_config)) = 0"
    by (simp add: init_def cloning_config_def)
  have c: "config (init cloning_config) = cloning_config"
    by (simp add: init_def)
  show ?thesis
    using cloning_no_value_loss_no_moving_average [OF b, of cloning_inputs "Some 0"] b c cloning_loss
    by (simp add: init_def)
qed

subsection \<open>The value loss\<close>

text \<open>
  C4. With \<open>beta \<noteq> 0\<close>, the value loss after the call is half the mean of the squared
  differences between the advantages of the batch and the value estimates.
\<close>

theorem value_loss_half_mean_squared_residual:
  assumes "beta (config s) \<noteq> 0"
    and "advantages b = Some cr"
    and "broadcast (-) (Vec cr) (Vec (state_values b)) = Inr adv"
    and "entries adv \<noteq> []"
    and "moving_average_sqd_adv_norm s = Some old"
  shows "v_loss (snd (loss s b)) = Some (0.5 * mean (tmap (\<lambda>x. x\<^sup>2) adv))"
  using advantage_estimation_weighted [OF assms(1,2,3,5)]
  by (auto simp: loss_def Let_def split: prod.splits sum.splits option.splits)

theorem value_loss_half_mean_squared_residual_witness:
  "v_loss (snd (loss (init scenario_config) scenario_inputs)) = Some (5 / 2)"
  using value_loss_half_mean_squared_residual
          [of "init scenario_config" scenario_inputs "[2, 4]" "Vec [1, 3]" 1]
  by (simp add: scenario_config_def scenario_inputs_def init_def mean_list_def)

subsection \<open>The steady scenario, evaluated\<close>

lemma steady_estimation:
  "advantage_estimation (init steady_config) steady_inputs =
     (Inr (Vec [exp (100000000 / 100000001), exp (- (100000000 / 100000001))]),
      (init steady_config)\<lparr>explained_variance_attr := Some 0,
                           moving_average_sqd_adv_norm := Some 1,
                           v_loss := Some (1 / 2)\<rparr>)"
  by (simp add: advantage_estimation_def explained_variance_def exp_advs_of_def variance_def
        mean_list_def init_def steady_config_def steady_inputs_def Let_def)

lemma steady_loss:
  "loss (init steady_config) steady_inputs =
     (Inr (- ((exp (100000000 / 100000001) * (1 / 2)
               + exp (- (100000000 / 100000001)) * (- (3 / 2))) / 2) + 1 / 2),
      (init steady_config)\<lparr>explained_variance_attr := Some 0,
                           moving_average_sqd_adv_norm := Some 1,
                           v_loss := Some (1 / 2),
                           p_loss := Some (- ((exp (100000000 / 100000001) * (1 / 2)
               + exp (- (100000000 / 100000001)) * (- (3 / 2))) / 2)),
                           total_loss := Some (- ((exp (100000000 / 100000001) * (1 / 2)
               + exp (- (100000000 / 100000001)) * (- (3 / 2))) / 2) + 1 / 2)\<rparr>)"
  by (simp add: loss_def steady_estimation logstds_of_def mean_list_def Let_def)
     (simp add: init_def steady_config_def steady_inputs_def mean_list_def Let_def)

subsection \<open>The weights\<close>






lemma exp_advs_real_increasing:
  assumes "0 < b" and "0 \<le> m"
    and "i < length adv" and "j < length adv"
    and "adv ! j < adv ! i"
  shows "entries (exp_advs_of b (Vec adv) m) ! j < entries (exp_advs_of b (Vec adv) m) ! i"
proof -
  have "0 < 1 / 10 ^ 8 + sqrt m"
    using assms(2) by (simp add: add_pos_nonneg)
  then have "adv ! j / (1 / 10 ^ 8 + sqrt m) < adv ! i / (1 / 10 ^ 8 + sqrt m)"
    using assms(5) by (simp add: divide_strict_right_mono)
  then have "b * (adv ! j / (1 / 10 ^ 8 + sqrt m)) < b * (adv ! i / (1 / 10 ^ 8 + sqrt m))"
    using assms(1) by (rule mult_strict_left_mono)
  then show ?thesis
    using assms(3,4) by (simp add: exp_advs_of_def)
qed

lemma to_float32_mono:
  "0 < x \<Longrightarrow> x < y \<Longrightarrow> float32_le (to_float32 x) (to_float32 y)"
  by (simp add: to_float32_def float32_le_def)

lemma two_power_le_exp: "real n \<le> x \<Longrightarrow> 2 ^ n \<le> exp x"
proof -
  assume le: "real n \<le> x"
  have "(2::real) \<le> exp 1"
    using exp_ge_add_one_self [of "1::real"] by simp
  then have "(2::real) ^ n \<le> exp 1 ^ n"
    by (simp add: power_mono)
  also have "exp 1 ^ n = exp (real n)"
    using exp_of_nat_mult [of n "1::real"] by simp
  also have "exp (real n) \<le> exp x"
    using le by simp
  finally show ?thesis .
qed

text \<open>
  C6, as stated, fails. With \<open>beta = 1\<close> and the moving average \<open>1\<close>, the advantages
  \<open>200 < 300\<close> both get the weight \<open>inf\<close> in float32, so the weight of the larger
  advantage is not the larger one.
\<close>

theorem exp_advs_equal_at_overflow_counterexample:
  "(200::real) < 300
   \<and> exp_advs_float32 1 (Vec [200, 300]) 1 = [PosInf, PosInf]
   \<and> \<not> float32_less (exp_advs_float32 1 (Vec [200, 300]) 1 ! 0)
                      (exp_advs_float32 1 (Vec [200, 300]) 1 ! 1)"
proof -
  have "2 ^ 128 \<le> exp (20000000000 / 100000001 :: real)"
    by (rule two_power_le_exp) simp
  moreover have "2 ^ 128 \<le> exp (30000000000 / 100000001 :: real)"
    by (rule two_power_le_exp) simp
  ultimately have "exp_advs_float32 1 (Vec [200, 300]) 1 = [PosInf, PosInf]"
    by (simp add: exp_advs_float32_def exp_advs_of_def to_float32_def)
  then show ?thesis by simp
qed

text \<open>
  C6, amended. For \<open>beta > 0\<close> and a fixed non-negative moving average, the weights are
  non-decreasing in the advantage: a transition with a larger advantage has a weight that
  is at least as large.
\<close>

theorem exp_advs_nondecreasing:
  assumes "0 < b" and "0 \<le> m"
    and "i < length adv" and "j < length adv"
    and "adv ! j < adv ! i"
  shows "float32_le (exp_advs_float32 b (Vec adv) m ! j) (exp_advs_float32 b (Vec adv) m ! i)"
proof -
  have "length (entries (exp_advs_of b (Vec adv) m)) = length adv"
    by (simp add: exp_advs_of_def)
  moreover have "0 < entries (exp_advs_of b (Vec adv) m) ! j"
    using assms(4) by (simp add: exp_advs_of_def)
  ultimately show ?thesis
    using exp_advs_real_increasing [OF assms] assms(3,4)
    by (simp add: exp_advs_float32_def to_float32_mono)
qed

theorem exp_advs_nondecreasing_witness:
  "float32_le (exp_advs_float32 1 (Vec [200, 300]) 1 ! 0)
              (exp_advs_float32 1 (Vec [200, 300]) 1 ! 1)"
  using exp_advs_nondecreasing [of 1 1 1 "[200, 300]" 0] by simp

subsection \<open>Policy loss and total loss\<close>

lemma broadcast_aligned:
  "length xs = n \<Longrightarrow> length ys = n \<Longrightarrow>
     broadcast f (Vec xs) (Vec ys) = Inr (Vec (map (\<lambda>i. f (xs ! i) (ys ! i)) [0..<n]))"
  by (auto intro: nth_equalityI)

lemma broadcast_scalar_left:
  "length ys = n \<Longrightarrow>
     broadcast f (Scalar a) (Vec ys) = Inr (Vec (map (\<lambda>i. f a (ys ! i)) [0..<n]))"
  by (auto intro: nth_equalityI)

lemma broadcast_scalar_right:
  "length xs = n \<Longrightarrow>
     broadcast f (Vec xs) (Scalar a) = Inr (Vec (map (\<lambda>i. f (xs ! i) a) [0..<n]))"
  by (auto intro: nth_equalityI)

text \<open>
  C5. Let the advantage estimation of the call return the weights \<open>exp_advs\<close> and set the
  value loss, and let the weights, the log-probabilities and, when \<open>bc_logstd_coeff > 0\<close>,
  the rows of the log-standard-deviation be aligned on a batch of \<open>n > 0\<close> transitions.
  Then the policy loss is the negated mean over the batch of
  \<open>exp_advs i * (logprobs i + bc_logstd_coeff * logstd i)\<close>, where \<open>logstd i\<close> is the
  mean of row \<open>i\<close> when \<open>bc_logstd_coeff > 0\<close> and \<open>0\<close> otherwise, and the returned total
  loss is the policy loss plus \<open>vf_coeff\<close> times the value loss.
\<close>

theorem policy_and_total_loss:
  assumes "advantage_estimation s b = (Inr exp_advs, s1)"
    and "v_loss s1 = Some value_loss"
    and "length (logprobs b) = n" and "0 < n"
    and "case exp_advs of Scalar a \<Rightarrow> True | Vec ws \<Rightarrow> length ws = n"
    and "0 < bc_logstd_coeff (config s1) \<longrightarrow>
           log_std b = Some rows \<and> length rows = n \<and> [] \<notin> set rows"
    and "policy_loss =
           - mean_list (map (\<lambda>i. (case exp_advs of Scalar a \<Rightarrow> a | Vec ws \<Rightarrow> ws ! i)
                               * (logprobs b ! i
                                  + bc_logstd_coeff (config s1)
                                    * (if 0 < bc_logstd_coeff (config s1)
                                       then mean_list (rows ! i) else 0)))
                        [0..<n])"
  shows "loss s b = (Inr (policy_loss + vf_coeff (config s1) * value_loss),
                     s1\<lparr>p_loss := Some policy_loss,
                        total_loss := Some (policy_loss + vf_coeff (config s1) * value_loss)\<rparr>)"
proof -
  define c where "c = bc_logstd_coeff (config s1)"
  define g where "g = (\<lambda>i. logprobs b ! i + c * (if 0 < c then mean_list (rows ! i) else 0))"
  have inner: "\<exists>logstds. logstds_of c b = Inr logstds
      \<and> broadcast (+) (Vec (logprobs b)) (tmap (\<lambda>x. c * x) logstds) = Inr (Vec (map g [0..<n]))"
  proof (cases "0 < c")
    case True
    then have "log_std b = Some rows" and lr: "length rows = n"
      using assms(6) by (simp_all add: c_def)
    then have "logstds_of c b = Inr (Vec (map mean_list rows))"
      using True by (simp add: logstds_of_def)
    moreover have "broadcast (+) (Vec (logprobs b)) (tmap (\<lambda>x. c * x) (Vec (map mean_list rows)))
                     = Inr (Vec (map g [0..<n]))"
      using True lr assms(3)
      by (simp add: broadcast_aligned [of _ n] g_def del: broadcast.simps)
    ultimately show ?thesis by blast
  next
    case False
    then have "logstds_of c b = Inr (Scalar 0)"
      by (simp add: logstds_of_def)
    moreover have "broadcast (+) (Vec (logprobs b)) (tmap (\<lambda>x. c * x) (Scalar 0))
                     = Inr (Vec (map g [0..<n]))"
      using False assms(3)
      by (simp add: broadcast_scalar_right [of _ n] g_def del: broadcast.simps)
    ultimately show ?thesis by blast
  qed
  then obtain logstds where ls: "logstds_of c b = Inr logstds"
    and sum: "broadcast (+) (Vec (logprobs b)) (tmap (\<lambda>x. c * x) logstds) = Inr (Vec (map g [0..<n]))"
    by blast
  have weighted: "broadcast (*) exp_advs (Vec (map g [0..<n]))
      = Inr (Vec (map (\<lambda>i. (case exp_advs of Scalar a \<Rightarrow> a | Vec ws \<Rightarrow> ws ! i) * g i) [0..<n]))"
  proof (cases exp_advs)
    case (Scalar a)
    then show ?thesis
      by (simp add: broadcast_scalar_left [of _ n] del: broadcast.simps)
  next
    case (Vec ws)
    then have "length ws = n" using assms(5) by simp
    then show ?thesis
      using Vec by (simp add: broadcast_aligned [of _ n] del: broadcast.simps)
  qed
  have pl: "policy_loss
      = - mean (Vec (map (\<lambda>i. (case exp_advs of Scalar a \<Rightarrow> a | Vec ws \<Rightarrow> ws ! i) * g i) [0..<n]))"
    using assms(7) by (simp add: g_def c_def)
  show ?thesis
    using assms(1,2) ls sum weighted pl
    by (simp add: loss_def Let_def c_def del: broadcast.simps mean.simps)
qed

theorem policy_and_total_loss_witness:
  "loss (init steady_config) steady_inputs =
     (Inr (- ((exp (100000000 / 100000001) * (1 / 2)
               + exp (- (100000000 / 100000001)) * (- (3 / 2))) / 2) + 1 / 2),
      (init steady_config)\<lparr>explained_variance_attr := Some 0,
                           moving_average_sqd_adv_norm := Some 1,
                           v_loss := Some (1 / 2),
                           p_loss := Some (- ((exp (100000000 / 100000001) * (1 / 2)
               + exp (- (100000000 / 100000001)) * (- (3 / 2))) / 2)),
                           total_loss := Some (- ((exp (100000000 / 100000001) * (1 / 2)
               + exp (- (100000000 / 100000001)) * (- (3 / 2))) / 2) + 1 / 2)\<rparr>)"
proof -
  have upt2: "[0..<2] = [0, Suc 0]"
    by (simp add: upt_rec)
  show ?thesis
    using policy_and_total_loss [OF steady_estimation, of "1 / 2" 2 "[[2, 4], [0, 2]]"
                "- ((exp (100000000 / 100000001) * (1 / 2)
                     + exp (- (100000000 / 100000001)) * (- (3 / 2))) / 2)"]
    by (simp add: init_def steady_config_def steady_inputs_def mean_list_def upt2)
qed

subsection \<open>The moving average stays non-negative\<close>

lemma mean_squares_nonneg: "0 \<le> mean (tmap (\<lambda>x. x\<^sup>2) t)"
proof (cases t)
  case (Scalar a)
  then show ?thesis by simp
next
  case (Vec xs)
  have "0 \<le> sum_list (map (\<lambda>x. x\<^sup>2) xs)"
    by (rule sum_list_nonneg) auto
  then show ?thesis
    using Vec by (simp add: mean_list_def)
qed

lemma advantage_estimation_config:
  "config (snd (advantage_estimation s b)) = config s"
  by (simp add: advantage_estimation_def Let_def del: broadcast.simps
        split: option.splits sum.splits)

lemma loss_config: "config (snd (loss s b)) = config s"
  using advantage_estimation_config [of s b]
  by (auto simp: loss_def Let_def split: prod.splits sum.splits option.splits)

lemma advantage_estimation_nonneg:
  assumes "moving_average_sqd_adv_norm s = Some m" and "0 \<le> m"
    and "0 < moving_average_sqd_adv_norm_update_rate (config s)"
    and "moving_average_sqd_adv_norm_update_rate (config s) \<le> 1"
  shows "\<exists>m'. moving_average_sqd_adv_norm (snd (advantage_estimation s b)) = Some m' \<and> 0 \<le> m'"
proof -
  have step: "0 \<le> m + r * (q - m)" if "0 \<le> q" "0 < r" "r \<le> 1" for q r :: real
  proof -
    have "m + r * (q - m) = (1 - r) * m + r * q"
      by (simp add: algebra_simps)
    moreover have "0 \<le> (1 - r) * m" using that assms(2) by simp
    moreover have "0 \<le> r * q" using that by simp
    ultimately show ?thesis by simp
  qed
  show ?thesis
    using assms step [OF mean_squares_nonneg]
    by (auto simp: advantage_estimation_def Let_def simp del: broadcast.simps
          split: option.splits sum.splits)
qed

lemma loss_nonneg:
  assumes "moving_average_sqd_adv_norm s = Some m" and "0 \<le> m"
    and "0 < moving_average_sqd_adv_norm_update_rate (config s)"
    and "moving_average_sqd_adv_norm_update_rate (config s) \<le> 1"
  shows "\<exists>m'. moving_average_sqd_adv_norm (snd (loss s b)) = Some m' \<and> 0 \<le> m'"
  using advantage_estimation_nonneg [OF assms] by (simp add: loss_keeps_moving_average)

lemma losses_nonneg:
  assumes "0 < moving_average_sqd_adv_norm_update_rate (config s)"
    and "moving_average_sqd_adv_norm_update_rate (config s) \<le> 1"
    and "moving_average_sqd_adv_norm s = Some m" and "0 \<le> m"
  shows "\<exists>m'. moving_average_sqd_adv_norm (foldl (\<lambda>s b. snd (loss s b)) s bs) = Some m' \<and> 0 \<le> m'"
  using assms
proof (induction bs arbitrary: s m)
  case Nil
  then show ?case by simp
next
  case (Cons b bs)
  obtain m' where "moving_average_sqd_adv_norm (snd (loss s b)) = Some m'" and "0 \<le> m'"
    using loss_nonneg [OF Cons.prems(3,4,1,2)] by blast
  then show ?case
    using Cons.IH [of "snd (loss s b)" m'] Cons.prems(1,2) by (simp add: loss_config)
qed

lemma scenario_twice:
  "moving_average_sqd_adv_norm
     (foldl (\<lambda>s b. snd (loss s b)) (init scenario_config) [scenario_inputs, scenario_inputs])
   = Some (44 / 25)"
  by (simp add: loss_keeps_moving_average loss_config advantage_estimation_def
        explained_variance_def init_def scenario_config_def scenario_inputs_def mean_list_def
        Let_def)

text \<open>
  C7. With \<open>beta \<noteq> 0\<close>, a non-negative start value and an update rate in \<open>(0, 1]\<close>,
  the moving average is set and non-negative after any sequence of calls of the loss on
  non-empty batches, whether the calls return or raise.
\<close>

theorem moving_average_nonnegative:
  assumes "beta cfg \<noteq> 0"
    and "0 \<le> moving_average_sqd_adv_norm_start cfg"
    and "0 < moving_average_sqd_adv_norm_update_rate cfg"
    and "moving_average_sqd_adv_norm_update_rate cfg \<le> 1"
    and "\<forall>b \<in> set bs. state_values b \<noteq> [] \<and> advantages b \<noteq> Some []"
  shows "\<exists>m. moving_average_sqd_adv_norm (foldl (\<lambda>s b. snd (loss s b)) (init cfg) bs) = Some m
             \<and> 0 \<le> m"
proof -
  have "config (init cfg) = cfg"
    and "moving_average_sqd_adv_norm (init cfg) = Some (moving_average_sqd_adv_norm_start cfg)"
    using assms(1) by (simp_all add: init_def)
  then show ?thesis
    using losses_nonneg [of "init cfg" "moving_average_sqd_adv_norm_start cfg" bs] assms(2,3,4)
    by simp
qed

theorem moving_average_nonnegative_witness:
  "moving_average_sqd_adv_norm
     (foldl (\<lambda>s b. snd (loss s b)) (init scenario_config) [scenario_inputs, scenario_inputs])
   = Some (44 / 25) \<and> (0::real) \<le> 44 / 25"
  using moving_average_nonnegative [of scenario_config "[scenario_inputs, scenario_inputs]"] scenario_twice
  by (simp add: scenario_config_def scenario_inputs_def)

subsection \<open>Statistics\<close>

lemma advantage_estimation_sets:
  assumes "advantage_estimation s b = (Inr w, s1)"
  shows "v_loss s1 \<noteq> None
       \<and> (beta (config s) \<noteq> 0 \<longrightarrow>
            moving_average_sqd_adv_norm s1 \<noteq> None \<and> explained_variance_attr s1 \<noteq> None)"
proof -
  have half: "\<exists>y. a = y * 2" for a :: real
    by (rule exI [of _ "a / 2"]) simp
  show ?thesis
    using assms
    by (auto simp: advantage_estimation_def Let_def half simp del: broadcast.simps
          split: option.splits sum.splits if_splits)
qed

lemma loss_returns:
  assumes "loss s b = (Inr t, s')"
  shows "\<exists>w s1 p. advantage_estimation s b = (Inr w, s1)
                 \<and> s' = s1\<lparr>p_loss := Some p, total_loss := Some t\<rparr>"
  using assms
  by (auto simp: loss_def Let_def split: prod.splits sum.splits option.splits)

text \<open>
  C8. After a call of the loss that returns, \<open>stats_fn\<close> returns a dictionary whose keys
  are exactly \<open>policy_loss\<close> and \<open>total_loss\<close> when \<open>beta = 0\<close>, and these two with
  \<open>moving_average_sqd_adv_norm\<close>, \<open>vf_explained_var\<close> and \<open>vf_loss\<close> when
  \<open>beta \<noteq> 0\<close>; each value is the quantity that this call has left in the policy.
\<close>

theorem stats_keys_and_values:
  assumes "loss s b = (Inr t, s')"
  shows "\<exists>stats. stats_fn s' = Inr stats
      \<and> dom stats = (if beta (config s') = 0 then {''policy_loss'', ''total_loss''}
                     else {''policy_loss'', ''total_loss'', ''moving_average_sqd_adv_norm'',
                           ''vf_explained_var'', ''vf_loss''})
      \<and> stats ''policy_loss'' = p_loss s'
      \<and> stats ''total_loss'' = Some t
      \<and> (beta (config s') \<noteq> 0 \<longrightarrow>
            stats ''moving_average_sqd_adv_norm'' = moving_average_sqd_adv_norm s'
          \<and> stats ''vf_explained_var'' = explained_variance_attr s'
          \<and> stats ''vf_loss'' = v_loss s')"
proof -
  obtain w s1 p where ae: "advantage_estimation s b = (Inr w, s1)"
    and s': "s' = s1\<lparr>p_loss := Some p, total_loss := Some t\<rparr>"
    using loss_returns [OF assms] by blast
  have cfg: "config s1 = config s"
    using advantage_estimation_config [of s b] ae by simp
  obtain v where v: "v_loss s1 = Some v"
    using advantage_estimation_sets [OF ae] by blast
  show ?thesis
  proof (cases "beta (config s) = 0")
    case True
    then show ?thesis
      using s' cfg by (auto simp: stats_fn_def)
  next
    case False
    then obtain m e where "moving_average_sqd_adv_norm s1 = Some m"
      and "explained_variance_attr s1 = Some e"
      using advantage_estimation_sets [OF ae] by blast
    then show ?thesis
      using False s' cfg v by (auto simp: stats_fn_def)
  qed
qed

theorem stats_keys_and_values_witness:
  "stats_fn (snd (loss (init steady_config) steady_inputs)) =
     Inr [''policy_loss'' \<mapsto> - ((exp (100000000 / 100000001) * (1 / 2)
                                   + exp (- (100000000 / 100000001)) * (- (3 / 2))) / 2),
          ''total_loss'' \<mapsto> - ((exp (100000000 / 100000001) * (1 / 2)
                                  + exp (- (100000000 / 100000001)) * (- (3 / 2))) / 2) + 1 / 2,
          ''moving_average_sqd_adv_norm'' \<mapsto> 1,
          ''vf_explained_var'' \<mapsto> 0,
          ''vf_loss'' \<mapsto> 1 / 2]"
  using stats_keys_and_values [OF steady_loss]
  by (simp add: steady_loss stats_fn_def) (simp add: init_def steady_config_def)

subsection \<open>A non-positive log-std coefficient\<close>

lemma advantage_estimation_ignores_logstd:
  "advantage_estimation (s\<lparr>config := (config s)\<lparr>bc_logstd_coeff := c\<rparr>\<rparr>) (b\<lparr>log_std := ls\<rparr>)
     = (fst (advantage_estimation s b),
        (snd (advantage_estimation s b))\<lparr>config := (config s)\<lparr>bc_logstd_coeff := c\<rparr>\<rparr>)"
  by (simp add: advantage_estimation_def explained_variance_def Let_def del: broadcast.simps
        split: option.splits sum.splits)

text \<open>
  C10. With \<open>bc_logstd_coeff \<le> 0\<close> the call of the loss does not depend on the
  log-standard-deviation of the distribution, present or absent, and its result and the
  attributes it sets are those of the same call with \<open>bc_logstd_coeff = 0\<close>.
\<close>

theorem nonpositive_logstd_coeff_ignores_log_std:
  assumes "bc_logstd_coeff (config s) \<le> 0"
  shows "loss s b =
     (fst (loss (s\<lparr>config := (config s)\<lparr>bc_logstd_coeff := 0\<rparr>\<rparr>) (b\<lparr>log_std := ls\<rparr>)),
      (snd (loss (s\<lparr>config := (config s)\<lparr>bc_logstd_coeff := 0\<rparr>\<rparr>) (b\<lparr>log_std := ls\<rparr>)))
        \<lparr>config := config s\<rparr>)"
proof -
  have cfg: "config (snd (advantage_estimation s b)) = config s"
    by (rule advantage_estimation_config)
  have nonpos: "\<not> 0 < bc_logstd_coeff (config s)"
    using assms by simp
  show ?thesis
    using cfg nonpos
    by (auto simp: loss_def logstds_of_def Let_def advantage_estimation_ignores_logstd
          split: prod.splits sum.splits option.splits)
qed

theorem nonpositive_logstd_coeff_ignores_log_std_witness:
  "loss (init (steady_config\<lparr>bc_logstd_coeff := - 1\<rparr>)) steady_inputs =
     (fst (loss (init (steady_config\<lparr>bc_logstd_coeff := 0\<rparr>)) (steady_inputs\<lparr>log_std := None\<rparr>)),
      (snd (loss (init (steady_config\<lparr>bc_logstd_coeff := 0\<rparr>)) (steady_inputs\<lparr>log_std := None\<rparr>)))
        \<lparr>config := steady_config\<lparr>bc_logstd_coeff := - 1\<rparr>\<rparr>)"
  using nonpositive_logstd_coeff_ignores_log_std [of "init (steady_config\<lparr>bc_logstd_coeff := - 1\<rparr>)" steady_inputs None]
  by (simp add: init_def steady_config_def)

subsection \<open>Calling the loss twice\<close>

lemma broadcast_shape:
  "broadcast f (exp_advs_of c adv m) u = Inr x \<Longrightarrow>
     \<exists>y. broadcast f (exp_advs_of c adv m') u = Inr y"
  by (cases adv; cases u) (auto simp: exp_advs_of_def split: if_splits)

lemma second_call_returns:
  assumes "loss s b = (Inr t1, s1)"
    and "advantage_estimation s b = (Inr (exp_advs_of c adv m), A)"
    and "advantage_estimation s1 b = (Inr (exp_advs_of c adv m'), A')"
    and "config A' = config A" and "v_loss A' = Some v"
  shows "\<exists>t2 s2. loss s1 b = (Inr t2, s2)"
  using assms
  by (auto simp: loss_def Let_def simp del: broadcast.simps
        split: sum.splits option.splits dest: broadcast_shape [where m' = m'])

lemma stats_moving_average:
  assumes "loss s b = (Inr t, s')" and "beta (config s) \<noteq> 0"
  shows "\<exists>stats. stats_fn s' = Inr stats
      \<and> stats ''moving_average_sqd_adv_norm'' = moving_average_sqd_adv_norm s'"
proof -
  obtain w s1 p where ae: "advantage_estimation s b = (Inr w, s1)"
    and s': "s' = s1\<lparr>p_loss := Some p, total_loss := Some t\<rparr>"
    using loss_returns [OF assms(1)] by blast
  have cfg: "config s1 = config s"
    using advantage_estimation_config [of s b] ae by simp
  obtain v m e where "v_loss s1 = Some v" and "moving_average_sqd_adv_norm s1 = Some m"
      and "explained_variance_attr s1 = Some e"
    using advantage_estimation_sets [OF ae] assms(2) by blast
  then show ?thesis
    using assms(2) s' cfg by (auto simp: stats_fn_def)
qed

lemma scenario_returns:
  "\<exists>t. loss (init scenario_config) scenario_inputs
        = (Inr t, snd (loss (init scenario_config) scenario_inputs))"
  by (simp add: loss_def advantage_estimation_def explained_variance_def exp_advs_of_def
        logstds_of_def init_def scenario_config_def scenario_inputs_def Let_def)

text \<open>
  C9, as stated, fails. In the steady scenario \<open>beta = 1\<close>, the mean of the squared
  advantages equals the moving average, and the second call on the same inputs returns
  the same loss and leaves the same policy, hence the same statistics, as the first.
\<close>

theorem second_call_same_result_counterexample:
  "beta (config (init steady_config)) \<noteq> 0
   \<and> loss (snd (loss (init steady_config) steady_inputs)) steady_inputs
       = loss (init steady_config) steady_inputs"
proof -
  have "advantage_estimation (snd (loss (init steady_config) steady_inputs)) steady_inputs
      = (Inr (Vec [exp (100000000 / 100000001), exp (- (100000000 / 100000001))]),
         snd (loss (init steady_config) steady_inputs))"
    unfolding steady_loss
    by (simp add: advantage_estimation_def explained_variance_def exp_advs_of_def variance_def
          mean_list_def init_def steady_config_def steady_inputs_def Let_def)
  then have "loss (snd (loss (init steady_config) steady_inputs)) steady_inputs
      = loss (init steady_config) steady_inputs"
    unfolding steady_loss
    by (simp add: loss_def logstds_of_def mean_list_def Let_def)
       (simp add: init_def steady_config_def steady_inputs_def mean_list_def Let_def)
  then show ?thesis
    by (simp add: init_def steady_config_def)
qed

text \<open>
  C9, amended. With \<open>beta \<noteq> 0\<close>, after a call of the loss that returns, a second call
  on the same inputs returns as well. When the update rate is \<open>0\<close> or the mean of the
  squared advantages equals the moving average before the first call, it returns the
  same loss and leaves the same policy, hence the same statistics. When it leaves
  another moving average than the first call, the statistics of the two calls differ;
  the returned loss may be the same.
\<close>

theorem second_call_same_at_fixed_point:
  assumes "beta (config s) \<noteq> 0"
    and "advantages b = Some cr"
    and "broadcast (-) (Vec cr) (Vec (state_values b)) = Inr adv"
    and "entries adv \<noteq> []"
    and "moving_average_sqd_adv_norm s = Some old"
    and "loss s b = (Inr t1, s1)"
  shows "\<exists>t2 s2. loss s1 b = (Inr t2, s2)
      \<and> (moving_average_sqd_adv_norm_update_rate (config s) = 0
           \<or> mean (tmap (\<lambda>x. x\<^sup>2) adv) = old \<longrightarrow> t2 = t1 \<and> s2 = s1)
      \<and> (moving_average_sqd_adv_norm s2 \<noteq> moving_average_sqd_adv_norm s1 \<longrightarrow>
            stats_fn s2 \<noteq> stats_fn s1)"
proof -
  define r where "r = moving_average_sqd_adv_norm_update_rate (config s)"
  define q where "q = mean (tmap (\<lambda>x. x\<^sup>2) adv)"
  define m1 where "m1 = old + r * (q - old)"
  define m2 where "m2 = m1 + r * (q - m1)"
  define A where "A = s\<lparr>explained_variance_attr := Some (1 - variance (entries adv) / variance cr),
                        moving_average_sqd_adv_norm := Some m1,
                        v_loss := Some (0.5 * q)\<rparr>"
  have first: "advantage_estimation s b = (Inr (exp_advs_of (beta (config s)) adv m1), A)"
    using advantage_estimation_weighted [OF assms(1,2,3,5)]
    by (simp add: A_def m1_def r_def q_def)
  obtain p where s1: "s1 = A\<lparr>p_loss := Some p, total_loss := Some t1\<rparr>"
    using loss_returns [OF assms(6)] first by auto
  have cfg: "config s1 = config s" and ma1: "moving_average_sqd_adv_norm s1 = Some m1"
    by (simp_all add: s1 A_def)
  have second: "advantage_estimation s1 b =
      (Inr (exp_advs_of (beta (config s)) adv m2),
       s1\<lparr>explained_variance_attr := Some (1 - variance (entries adv) / variance cr),
          moving_average_sqd_adv_norm := Some m2,
          v_loss := Some (0.5 * q)\<rparr>)"
    using advantage_estimation_weighted [of s1 b cr adv m1] assms(1,2,3) cfg ma1
    by (simp add: m2_def r_def q_def)
  have "\<exists>t2 s2. loss s1 b = (Inr t2, s2)"
    by (rule second_call_returns [OF assms(6) first second, of "0.5 * q"])
       (simp_all add: s1 A_def)
  then obtain t2 s2 where ret: "loss s1 b = (Inr t2, s2)"
    by blast
  have ma2: "moving_average_sqd_adv_norm s2 = Some m2"
    using loss_keeps_moving_average [of s1 b] ret second by simp
  have same: "t2 = t1 \<and> s2 = s1" if "r = 0 \<or> q = old"
  proof -
    have "m1 = old" and "m2 = m1"
      using that by (auto simp: m1_def m2_def)
    then have "advantage_estimation s1 b = (Inr (exp_advs_of (beta (config s)) adv m1), s1)"
      using second by (simp add: s1 A_def)
    then have "loss s1 b = (Inr t1, s1)"
      using assms(6) first
      by (auto simp: loss_def Let_def s1 A_def simp del: broadcast.simps
            split: sum.splits option.splits)
    then show ?thesis
      using ret by simp
  qed
  have differ: "stats_fn s2 \<noteq> stats_fn s1"
    if "moving_average_sqd_adv_norm s2 \<noteq> moving_average_sqd_adv_norm s1"
  proof -
    obtain st1 where st1: "stats_fn s1 = Inr st1"
      and k1: "st1 ''moving_average_sqd_adv_norm'' = moving_average_sqd_adv_norm s1"
      using stats_moving_average [OF assms(6,1)] by auto
    have "beta (config s1) \<noteq> 0"
      using assms(1) cfg by simp
    then obtain st2 where st2: "stats_fn s2 = Inr st2"
      and k2: "st2 ''moving_average_sqd_adv_norm'' = moving_average_sqd_adv_norm s2"
      using stats_moving_average [OF ret] by auto
    show ?thesis
      using st1 st2 k1 k2 that by auto
  qed
  show ?thesis
    using ret same differ by (auto simp: r_def q_def)
qed

lemma scenario_once:
  "moving_average_sqd_adv_norm (snd (loss (init scenario_config) scenario_inputs)) = Some (7 / 5)"
  by (simp add: loss_keeps_moving_average advantage_estimation_def explained_variance_def
        init_def scenario_config_def scenario_inputs_def mean_list_def Let_def)

theorem second_call_same_at_fixed_point_witness:
  "(\<exists>t1. loss (init steady_config) steady_inputs
            = (Inr t1, snd (loss (init steady_config) steady_inputs))
        \<and> loss (snd (loss (init steady_config) steady_inputs)) steady_inputs
            = (Inr t1, snd (loss (init steady_config) steady_inputs)))
   \<and> stats_fn (snd (loss (snd (loss (init scenario_config) scenario_inputs)) scenario_inputs))
       \<noteq> stats_fn (snd (loss (init scenario_config) scenario_inputs))"
proof -
  let ?s0 = "init steady_config" and ?b0 = steady_inputs
  let ?c0 = "init scenario_config" and ?d0 = scenario_inputs
  obtain t1 where steady: "loss ?s0 ?b0 = (Inr t1, snd (loss ?s0 ?b0))"
    using steady_loss by simp
  have "\<exists>t2 s2. loss (snd (loss ?s0 ?b0)) ?b0 = (Inr t2, s2)
      \<and> (moving_average_sqd_adv_norm_update_rate (config ?s0) = 0
           \<or> mean (tmap (\<lambda>x. x\<^sup>2) (Vec [1, - 1])) = 1 \<longrightarrow> t2 = t1 \<and> s2 = snd (loss ?s0 ?b0))
      \<and> (moving_average_sqd_adv_norm s2 \<noteq> moving_average_sqd_adv_norm (snd (loss ?s0 ?b0)) \<longrightarrow>
            stats_fn s2 \<noteq> stats_fn (snd (loss ?s0 ?b0)))"
    by (rule second_call_same_at_fixed_point [OF _ _ _ _ _ steady, of "[2, 0]"])
       (simp_all add: init_def steady_config_def steady_inputs_def)
  then have one: "loss (snd (loss ?s0 ?b0)) ?b0 = (Inr t1, snd (loss ?s0 ?b0))"
    by (auto simp: mean_list_def)
  obtain u1 where scen: "loss ?c0 ?d0 = (Inr u1, snd (loss ?c0 ?d0))"
    using scenario_returns by blast
  have "\<exists>t2 s2. loss (snd (loss ?c0 ?d0)) ?d0 = (Inr t2, s2)
      \<and> (moving_average_sqd_adv_norm_update_rate (config ?c0) = 0
           \<or> mean (tmap (\<lambda>x. x\<^sup>2) (Vec [1, 3])) = 1 \<longrightarrow> t2 = u1 \<and> s2 = snd (loss ?c0 ?d0))
      \<and> (moving_average_sqd_adv_norm s2 \<noteq> moving_average_sqd_adv_norm (snd (loss ?c0 ?d0)) \<longrightarrow>
            stats_fn s2 \<noteq> stats_fn (snd (loss ?c0 ?d0)))"
    by (rule second_call_same_at_fixed_point [OF _ _ _ _ _ scen, of "[2, 4]"])
       (simp_all add: init_def scenario_config_def scenario_inputs_def)
  then obtain t2 s2 where l2: "loss (snd (loss ?c0 ?d0)) ?d0 = (Inr t2, s2)"
    and d: "moving_average_sqd_adv_norm s2 \<noteq> moving_average_sqd_adv_norm (snd (loss ?c0 ?d0)) \<longrightarrow>
            stats_fn s2 \<noteq> stats_fn (snd (loss ?c0 ?d0))"
    by blast
  have "moving_average_sqd_adv_norm s2 = Some (44 / 25)"
    using scenario_twice l2 by simp
  then have two: "stats_fn (snd (loss (snd (loss ?c0 ?d0)) ?d0)) \<noteq> stats_fn (snd (loss ?c0 ?d0))"
    using d l2 scenario_once by simp
  show ?thesis
    using steady one two by blast
qed

end
